theory Spec2Isabelle
  imports Main "HOL-Library.Word" "HOL-Library.Signed_Division" "HOL-Library.Multiset"
begin

section \<open>Go values used by the engine\<close>

text \<open>
  Go strings are byte sequences, so a Go \<^verbatim>\<open>string\<close> is a \<^typ>\<open>string\<close> (a list of
  8-bit characters, UTF-8 encoded where the source has non-ASCII text).
  \<^verbatim>\<open>int32\<close> and \<^verbatim>\<open>time.Duration\<close> (an \<^verbatim>\<open>int64\<close> count of nanoseconds) are
  machine words read as two's complement.
\<close>

type_synonym int32 = "32 word"
type_synonym duration = "64 word"

definition Millisecond :: duration where
  "Millisecond = 1000000"

definition Second :: duration where
  "Second = 1000000000"

definition Minute :: duration where
  "Minute = 60000000000"

definition maxDuration :: duration where
  "maxDuration = word_of_int (2 ^ 63 - 1)"

definition minDuration :: duration where
  "minDuration = word_of_int (- (2 ^ 63))"

text \<open>
  A run-time panic of the Go program, and the three ways a call can end: it returns, it
  panics, or it blocks for ever on a channel that nobody will close.
\<close>

datatype panic = CloseOfClosedChannel | IndexOutOfRange

datatype 'a exec = Return 'a | Panic panic | Blocked

text \<open>A \<^verbatim>\<open>chan struct{}\<close> on which nothing is ever sent: it is open or closed.\<close>

datatype chan = Open | Closed

text \<open>
  Go's \<^verbatim>\<open>/\<close> on signed integers truncates towards zero; \<open>sdiv\<close> on \<^typ>\<open>int\<close> does the
  same. The divisor is never zero where the source divides.
\<close>

definition go_div :: "duration \<Rightarrow> duration \<Rightarrow> duration" where
  "go_div a b = word_of_int (sint a sdiv sint b)"

text \<open>
  \<^verbatim>\<open>time.Since(t)\<close> on monotonic clock readings (nanoseconds): the difference, saturated
  to the range of a Duration.
\<close>

definition time_Since :: "int \<Rightarrow> int \<Rightarrow> duration" where
  "time_Since now t =
     (let d = now - t
      in if 2 ^ 63 - 1 < d then maxDuration
         else if d < - (2 ^ 63) then minDuration
         else word_of_int d)"

subsection \<open>Formatting\<close>

definition digit_char :: "nat \<Rightarrow> char" where
  "digit_char n = ''0123456789'' ! n"

fun digits :: "nat \<Rightarrow> string" where
  "digits n = (if n < 10 then [digit_char n] else digits (n div 10) @ [digit_char (n mod 10)])"

declare digits.simps [simp del]

text \<open>The verb \<^verbatim>\<open>%d\<close> of \<^verbatim>\<open>fmt\<close>.\<close>

definition fmt_d :: "int \<Rightarrow> string" where
  "fmt_d i = (if i < 0 then CHR ''-'' # digits (nat (- i)) else digits (nat i))"

text \<open>
  \<^verbatim>\<open>formatDuration\<close> goes through \<^verbatim>\<open>float64\<close> in two of its three branches
  (\<^verbatim>\<open>d.Seconds()\<close>, \<^verbatim>\<open>d.Minutes()\<close>, the verb \<^verbatim>\<open>%.1f\<close>). Floating point is not modelled:
  the three float computations are parameters.
\<close>

record float_fmt =
  seconds_1f :: "duration \<Rightarrow> string"  \<comment> \<open>\<^verbatim>\<open>fmt.Sprintf("%.1f", d.Seconds())\<close>\<close>
  minutes_int :: "duration \<Rightarrow> int"  \<comment> \<open>\<^verbatim>\<open>int(d.Minutes())\<close>\<close>
  seconds_int :: "duration \<Rightarrow> int"  \<comment> \<open>\<^verbatim>\<open>int(d.Seconds())\<close>\<close>

definition formatDuration :: "float_fmt \<Rightarrow> duration \<Rightarrow> string" where
  "formatDuration F d =
     (if d <s Second then fmt_d (sint d sdiv 1000000) @ ''ms''
      else if d <s Minute then seconds_1f F d @ ''s''
      else fmt_d (minutes_int F d) @ ''m'' @ fmt_d (seconds_int F d smod 60) @ ''s'')"

section \<open>The progress tracker (Spinner)\<close>

text \<open>
  The struct \<^verbatim>\<open>Spinner\<close>. The two channels \<^verbatim>\<open>stop\<close> and \<^verbatim>\<open>stopped\<close> carry no values.
  \<open>start\<close> is the clock reading taken by \<^verbatim>\<open>time.Now()\<close> in \<^verbatim>\<open>NewSpinner\<close>. The mutex
  \<^verbatim>\<open>mu\<close> only makes the accesses to \<open>message\<close> atomic and has no field here. \<open>loops\<close> is not
  a field of the struct: it counts the render goroutines that \<^verbatim>\<open>Start\<close> has launched and
  that have not yet left their loop.
\<close>

record Spinner =
  frames :: "string list"
  current :: nat
  message :: string
  start :: int
  total :: int32
  "done" :: int32
  stop :: chan
  stopped :: chan
  loops :: nat

text \<open>The ten Braille frames, as UTF-8 bytes.\<close>

definition spinner_frames :: "string list" where
  "spinner_frames =
     [[CHR 0xE2, CHR 0xA0, CHR 0x8B], [CHR 0xE2, CHR 0xA0, CHR 0x99],
      [CHR 0xE2, CHR 0xA0, CHR 0xB9], [CHR 0xE2, CHR 0xA0, CHR 0xB8],
      [CHR 0xE2, CHR 0xA0, CHR 0xBC], [CHR 0xE2, CHR 0xA0, CHR 0xB4],
      [CHR 0xE2, CHR 0xA0, CHR 0xA6], [CHR 0xE2, CHR 0xA0, CHR 0xA7],
      [CHR 0xE2, CHR 0xA0, CHR 0x87], [CHR 0xE2, CHR 0xA0, CHR 0x8F]]"

definition NewSpinner :: "string \<Rightarrow> int \<Rightarrow> Spinner" where
  "NewSpinner msg now =
     \<lparr>frames = spinner_frames, current = 0, message = msg, start = now,
      total = 0, done = 0, stop = Open, stopped = Open, loops = 0\<rparr>"

text \<open>\<^verbatim>\<open>SetTotal(total int)\<close> stores \<^verbatim>\<open>int32(total)\<close>.\<close>

definition SetTotal :: "int \<Rightarrow> Spinner \<Rightarrow> Spinner" where
  "SetTotal n s = s\<lparr>total := word_of_int n\<rparr>"

definition IncrDone :: "Spinner \<Rightarrow> Spinner" where
  "IncrDone s = s\<lparr>done := done s + 1\<rparr>"

definition UpdateMessage :: "string \<Rightarrow> Spinner \<Rightarrow> Spinner" where
  "UpdateMessage msg s = s\<lparr>message := msg\<rparr>"

text \<open>\<^verbatim>\<open>Start\<close> launches one render goroutine.\<close>

definition Start :: "Spinner \<Rightarrow> Spinner" where
  "Start s = s\<lparr>loops := Suc (loops s)\<rparr>"

subsection \<open>Rendering\<close>

text \<open>
  The three \<^verbatim>\<open>Sprintf\<close> formats of \<^verbatim>\<open>render\<close>, with their arguments. Only the first has an
  ETA.
\<close>

datatype status =
    StatusEta (st_frame: string) (st_msg: string) (st_done: int32) (st_total: int32)
      (st_elapsed: string) (st_eta: string)
  | StatusTotal (st_frame: string) (st_msg: string) (st_total: int32) (st_elapsed: string)
  | StatusPlain (st_frame: string) (st_msg: string) (st_elapsed: string)

definition spaces10 :: string where
  "spaces10 = replicate 10 CHR '' ''"

text \<open>The text that \<^verbatim>\<open>fmt.Sprintf\<close> builds from each format.\<close>

fun status_text :: "status \<Rightarrow> string" where
  "status_text (StatusEta frame msg d t elapsedStr etaStr) =
     [CHR 0x0D] @ frame @ '' '' @ msg @ '' ['' @ fmt_d (sint d) @ ''/'' @ fmt_d (sint t) @ ''] ''
       @ elapsedStr @ '' (ETA: '' @ etaStr @ '')'' @ spaces10"
| "status_text (StatusTotal frame msg t elapsedStr) =
     [CHR 0x0D] @ frame @ '' '' @ msg @ '' [0/'' @ fmt_d (sint t) @ ''] '' @ elapsedStr @ spaces10"
| "status_text (StatusPlain frame msg elapsedStr) =
     [CHR 0x0D] @ frame @ '' '' @ msg @ '' '' @ elapsedStr @ spaces10"

text \<open>
  The ETA of \<^verbatim>\<open>render\<close>: \<^verbatim>\<open>avgTime := elapsed / time.Duration(done)\<close>, then
  \<^verbatim>\<open>remaining := time.Duration(total-done) * avgTime\<close>. The subtraction is on \<^verbatim>\<open>int32\<close>,
  the conversions extend the sign, the product is on \<^verbatim>\<open>int64\<close>.
\<close>

definition remaining :: "duration \<Rightarrow> int32 \<Rightarrow> int32 \<Rightarrow> duration" where
  "remaining elapsed t d = scast (t - d) * go_div elapsed (scast d)"

text \<open>
  \<^verbatim>\<open>render\<close> up to the choice of the format: \<open>now\<close> is the clock reading of
  \<^verbatim>\<open>time.Since(s.start)\<close>. \<^verbatim>\<open>s.frames[s.current]\<close> panics when the index is out of range.
\<close>

definition render_status :: "float_fmt \<Rightarrow> Spinner \<Rightarrow> int \<Rightarrow> status exec" where
  "render_status F s now =
     (let msg = message s;
          elapsed = time_Since now (start s);
          t = total s;
          d = done s
      in if current s < length (frames s) then
           (let frame = frames s ! current s;
                elapsedStr = formatDuration F elapsed
            in if 0 <s t \<and> 0 <s d then
                 Return (StatusEta frame msg d t elapsedStr
                           (formatDuration F (remaining elapsed t d)))
               else if 0 <s t then Return (StatusTotal frame msg t elapsedStr)
               else Return (StatusPlain frame msg elapsedStr))
         else Panic IndexOutOfRange)"

text \<open>\<^verbatim>\<open>render\<close>: the text printed.\<close>

definition render :: "float_fmt \<Rightarrow> Spinner \<Rightarrow> int \<Rightarrow> string exec" where
  "render F s now =
     (case render_status F s now of
        Return l \<Rightarrow> Return (status_text l)
      | Panic p \<Rightarrow> Panic p
      | Blocked \<Rightarrow> Blocked)"

text \<open>One tick of the loop of \<^verbatim>\<open>Start\<close>: render, then advance the frame.\<close>

definition tick :: "float_fmt \<Rightarrow> Spinner \<Rightarrow> int \<Rightarrow> (string \<times> Spinner) exec" where
  "tick F s now =
     (case render F s now of
        Return out \<Rightarrow> Return (out, s\<lparr>current := (current s + 1) mod length (frames s)\<rparr>)
      | Panic p \<Rightarrow> Panic p
      | Blocked \<Rightarrow> Blocked)"

subsection \<open>Stopping\<close>

text \<open>\<^verbatim>\<open>close(s.stop)\<close>: closing a closed channel panics.\<close>

definition close_stop :: "Spinner \<Rightarrow> Spinner exec" where
  "close_stop s =
     (case stop s of
        Closed \<Rightarrow> Panic CloseOfClosedChannel
      | Open \<Rightarrow> Return (s\<lparr>stop := Closed\<rparr>))"

text \<open>
  \<^verbatim>\<open><-s.stopped\<close>, after \<^verbatim>\<open>s.stop\<close> has been closed. Every render goroutine leaves its loop
  and runs its deferred \<^verbatim>\<open>close(s.stopped)\<close>. With no render goroutine and the channel
  still open, the receive blocks for ever; with one, the channel gets closed and the
  receive returns; with more than one, the second \<^verbatim>\<open>close(s.stopped)\<close> panics. A receive
  from a channel that is closed already returns at once.
\<close>

definition await_stopped :: "Spinner \<Rightarrow> Spinner exec" where
  "await_stopped s =
     (if loops s = 0 then (case stopped s of Closed \<Rightarrow> Return s | Open \<Rightarrow> Blocked)
      else if loops s = 1 then
        (case stopped s of
           Open \<Rightarrow> Return (s\<lparr>stopped := Closed, loops := 0\<rparr>)
         | Closed \<Rightarrow> Panic CloseOfClosedChannel)
      else Panic CloseOfClosedChannel)"

definition clear_line :: string where
  "clear_line = [CHR 0x0D] @ replicate 62 CHR '' '' @ [CHR 0x0D]"

text \<open>\<^verbatim>\<open>Stop\<close>: the spinner afterwards and the text printed.\<close>

definition Stop :: "Spinner \<Rightarrow> (Spinner \<times> string) exec" where
  "Stop s =
     (case close_stop s of
        Return s1 \<Rightarrow>
          (case await_stopped s1 of
             Return s2 \<Rightarrow> Return (s2, clear_line)
           | Panic p \<Rightarrow> Panic p
           | Blocked \<Rightarrow> Blocked)
      | Panic p \<Rightarrow> Panic p
      | Blocked \<Rightarrow> Blocked)"

text \<open>The check mark, as UTF-8 bytes.\<close>

definition check_mark :: string where
  "check_mark = [CHR 0xE2, CHR 0x9C, CHR 0x93]"

definition StopWithMessage :: "float_fmt \<Rightarrow> string \<Rightarrow> int \<Rightarrow> Spinner \<Rightarrow> (Spinner \<times> string) exec" where
  "StopWithMessage F msg now s =
     (case close_stop s of
        Return s1 \<Rightarrow>
          (case await_stopped s1 of
             Return s2 \<Rightarrow>
               Return (s2, [CHR 0x0D] @ check_mark @ '' '' @ msg @ '' (''
                             @ formatDuration F (time_Since now (start s2)) @ '')''
                             @ replicate 36 CHR '' '' @ [CHR 0x0A])
           | Panic p \<Rightarrow> Panic p
           | Blocked \<Rightarrow> Blocked)
      | Panic p \<Rightarrow> Panic p
      | Blocked \<Rightarrow> Blocked)"

section \<open>The network and the configuration\<close>

text \<open>
  The engine reaches the network through \<^verbatim>\<open>http.NewRequest\<close> and \<^verbatim>\<open>client.Do\<close> only. The
  network is a parameter: for a URL, \<open>new_request\<close> is the error text when the request
  cannot be built, and \<open>client_do\<close> is what \<^verbatim>\<open>client.Do\<close> gives (a transport error or a
  timeout with its text, or a response with its status code) together with the time the
  call took, which is what \<^verbatim>\<open>time.Since(start)\<close> reads right after it.
\<close>

datatype do_result = DoError string | Response int

record Net =
  new_request :: "string \<Rightarrow> string option"
  client_do :: "string \<Rightarrow> do_result \<times> duration"

record SiteConfig =
  URL :: string
  Enabled :: bool
  Language :: string

text \<open>
  \<^verbatim>\<open>Config.Sites\<close> is a Go map; a \<^verbatim>\<open>range\<close> over it visits its entries in an order that Go
  does not fix. The list is the entries in the order of that visit.
\<close>

record Config =
  Sites :: "(string \<times> SiteConfig) list"
  UserAgent :: string
  Timeout :: int

text \<open>The global \<^verbatim>\<open>TorrentURL\<close>; a missing key reads as the empty string.\<close>

definition TorrentURL :: "(string \<rightharpoonup> string) \<Rightarrow> string \<Rightarrow> string" where
  "TorrentURL urls t = (case urls t of None \<Rightarrow> [] | Some u \<Rightarrow> u)"

definition CheckNetWorkFromURL :: "Net \<Rightarrow> string \<Rightarrow> bool" where
  "CheckNetWorkFromURL net url =
     (case new_request net url of
        Some err \<Rightarrow> False
      | None \<Rightarrow>
          (case fst (client_do net url) of
             DoError err \<Rightarrow> False
           | Response code \<Rightarrow> code = 200))"

section \<open>The availability prober (Doctor)\<close>

record SiteStatus =
  Name :: string
  StatusURL :: string
  Available :: bool
  Latency :: duration
  Error :: string
  StatusLanguage :: string
  StatusEnabled :: bool

text \<open>The sites that the loop of \<^verbatim>\<open>Doctor\<close> does not skip, in the order of the loop.\<close>

definition examined :: "Config \<Rightarrow> string \<Rightarrow> (string \<times> SiteConfig) list" where
  "examined c language =
     filter (\<lambda>(name, site). \<not> (language \<noteq> [] \<and> Language site \<noteq> language)) (Sites c)"

text \<open>
  The body of one goroutine of \<^verbatim>\<open>Doctor\<close>, as its effect on the shared slice \<^verbatim>\<open>results\<close>.
  Both appends are under the mutex.
\<close>

definition doctor_worker :: "Net \<Rightarrow> string \<times> SiteConfig \<Rightarrow> SiteStatus list \<Rightarrow> SiteStatus list" where
  "doctor_worker net ns results =
     (let n = fst ns; s = snd ns;
          status = \<lparr>Name = n, StatusURL = URL s, Available = False, Latency = 0, Error = [],
                    StatusLanguage = Language s, StatusEnabled = Enabled s\<rparr>
      in case new_request net (URL s) of
           Some err \<Rightarrow> results @ [status\<lparr>Error := err\<rparr>]
         | None \<Rightarrow>
             (let status = status\<lparr>Latency := snd (client_do net (URL s))\<rparr>;
                  status = (case fst (client_do net (URL s)) of
                              DoError err \<Rightarrow> status\<lparr>Error := err\<rparr>
                            | Response code \<Rightarrow>
                                if code = 200 then status\<lparr>Available := True\<rparr>
                                else status\<lparr>Error := ''HTTP '' @ fmt_d code\<rparr>)
              in results @ [status]))"

text \<open>
  \<^verbatim>\<open>Doctor\<close>. One goroutine is launched for each examined site and \<^verbatim>\<open>wg.Wait()\<close> returns
  when all of them have run to their end. The mutex puts their appends in some order:
  \<open>sched\<close> lists the goroutines (by their position in \<^const>\<open>examined\<close>) in the order in
  which they take the mutex, so it is a permutation of the positions.
\<close>

definition Doctor :: "Config \<Rightarrow> Net \<Rightarrow> nat list \<Rightarrow> string \<Rightarrow> SiteStatus list" where
  "Doctor c net sched language =
     fold (doctor_worker net) (map (\<lambda>i. examined c language ! i) sched) []"

section \<open>Fan-out with a WaitGroup\<close>

text \<open>
  \<^verbatim>\<open>GetAvailableSites\<close>, \<^verbatim>\<open>GetAvailableSitesEx\<close>, \<^verbatim>\<open>CollectData\<close> and \<^verbatim>\<open>CollectDataEx\<close>
  share one shape. The coordinator makes a channel with a buffer of \<open>n\<close> places and runs
  \<open>n\<close> times \<^verbatim>\<open>wg.Add(1); go func(...)\<close>, then \<^verbatim>\<open>wg.Wait(); close(ch)\<close>. Goroutine \<open>i\<close>
  \<^item> computes a value (\<^verbatim>\<open>CheckNetWorkFromURL\<close> or \<^verbatim>\<open>Crawl\<close>),
  \<^item> calls \<^verbatim>\<open>spinner.IncrDone()\<close>,
  \<^item> sends to the channel, or returns without sending (a site that is down, a nil map),
  \<^item> runs the deferred \<^verbatim>\<open>wg.Done()\<close>.
  The goroutines run concurrently: an execution is a list of atomic actions, in the
  order in which they happen. \<open>work i\<close> is what goroutine \<open>i\<close> sends, \<open>None\<close> when it sends
  nothing.
\<close>

datatype 'r worker = Ready | Computed "'r option" | Counted "'r option" | Exiting | Gone

datatype action = Go | Work nat | Incr nat | Send nat | WgDone nat | Wait

record 'r fanout =
  workers :: "'r worker list"
  wg :: int
  spin :: Spinner
  ch :: "'r list"
  waited :: bool

definition fan_init :: "Spinner \<Rightarrow> 'r fanout" where
  "fan_init sp = \<lparr>workers = [], wg = 0, spin = sp, ch = [], waited = False\<rparr>"

text \<open>
  One action; \<open>None\<close> when the action cannot happen in that state. \<^verbatim>\<open>wg.Wait()\<close> returns
  only when the counter is zero, and it is called after the loop. A send on a full
  buffer would wait.
\<close>

fun fan_step :: "nat \<Rightarrow> (nat \<Rightarrow> 'r option) \<Rightarrow> action \<Rightarrow> 'r fanout \<Rightarrow> 'r fanout option" where
  "fan_step n work Go st =
     (if length (workers st) < n \<and> \<not> waited st
      then Some (st\<lparr>workers := workers st @ [Ready], wg := wg st + 1\<rparr>)
      else None)"
| "fan_step n work (Work i) st =
     (if i < length (workers st) \<and> workers st ! i = Ready
      then Some (st\<lparr>workers := (workers st)[i := Computed (work i)]\<rparr>)
      else None)"
| "fan_step n work (Incr i) st =
     (if i < length (workers st) then
        (case workers st ! i of
           Computed r \<Rightarrow>
             Some (st\<lparr>workers := (workers st)[i := Counted r], spin := IncrDone (spin st)\<rparr>)
         | _ \<Rightarrow> None)
      else None)"
| "fan_step n work (Send i) st =
     (if i < length (workers st) then
        (case workers st ! i of
           Counted None \<Rightarrow> Some (st\<lparr>workers := (workers st)[i := Exiting]\<rparr>)
         | Counted (Some x) \<Rightarrow>
             if length (ch st) < n
             then Some (st\<lparr>workers := (workers st)[i := Exiting], ch := ch st @ [x]\<rparr>)
             else None
         | _ \<Rightarrow> None)
      else None)"
| "fan_step n work (WgDone i) st =
     (if i < length (workers st) \<and> workers st ! i = Exiting
      then Some (st\<lparr>workers := (workers st)[i := Gone], wg := wg st - 1\<rparr>)
      else None)"
| "fan_step n work Wait st =
     (if length (workers st) = n \<and> wg st = 0 \<and> \<not> waited st
      then Some (st\<lparr>waited := True\<rparr>)
      else None)"

fun fan_run :: "nat \<Rightarrow> (nat \<Rightarrow> 'r option) \<Rightarrow> action list \<Rightarrow> 'r fanout \<Rightarrow> 'r fanout option" where
  "fan_run n work [] st = Some st"
| "fan_run n work (a # acts) st =
     (case fan_step n work a st of
        None \<Rightarrow> None
      | Some st' \<Rightarrow> fan_run n work acts st')"

text \<open>
  An execution up to the return of \<^verbatim>\<open>wg.Wait()\<close>: the state at that moment, \<open>None\<close> when
  the list of actions is not such an execution.
\<close>

definition fan_out :: "nat \<Rightarrow> (nat \<Rightarrow> 'r option) \<Rightarrow> action list \<Rightarrow> Spinner \<Rightarrow> 'r fanout option" where
  "fan_out n work acts sp =
     (case fan_run n work acts (fan_init sp) of
        None \<Rightarrow> None
      | Some st \<Rightarrow> if waited st then Some st else None)"

text \<open>The goroutines in the order in which they pass their send statement.\<close>

fun send_order :: "action list \<Rightarrow> nat list" where
  "send_order [] = []"
| "send_order (Send i # acts) = i # send_order acts"
| "send_order (a # acts) = send_order acts"

text \<open>The execution in which the goroutines run one after the other, in launch order.\<close>

definition serial :: "nat \<Rightarrow> action list" where
  "serial n =
     replicate n Go @ concat (map (\<lambda>i. [Work i, Incr i, Send i, WgDone i]) [0..<n]) @ [Wait]"

section \<open>The source gate\<close>

text \<open>\<^verbatim>\<open>for v := range ch { newItems = append(newItems, oldItems[v]) }\<close>\<close>

fun project :: "'h list \<Rightarrow> nat list \<Rightarrow> 'h list \<Rightarrow> 'h list exec" where
  "project oldItems [] newItems = Return newItems"
| "project oldItems (v # vs) newItems =
     (if v < length oldItems then project oldItems vs (newItems @ [oldItems ! v])
      else Panic IndexOutOfRange)"

text \<open>What goroutine \<open>i\<close> of the gate sends: its index, when the site answers.\<close>

definition gate_work :: "Net \<Rightarrow> (string \<rightharpoonup> string) \<Rightarrow> string list \<Rightarrow> nat \<Rightarrow> nat option" where
  "gate_work net urls items i =
     (if CheckNetWorkFromURL net (TorrentURL urls (items ! i)) then Some i else None)"

text \<open>
  The body that \<^verbatim>\<open>GetAvailableSites\<close> and \<^verbatim>\<open>GetAvailableSitesEx\<close> share, for the list
  \<open>items\<close> of site names that each of them fixes. \<open>now\<close> is the clock reading of
  \<^verbatim>\<open>NewSpinner\<close>, \<open>acts\<close> the execution of the probes.
\<close>

definition gate :: "string list \<Rightarrow> Net \<Rightarrow> (string \<rightharpoonup> string) \<Rightarrow> action list \<Rightarrow> int \<Rightarrow> 'h list
    \<Rightarrow> ('h list \<times> Spinner) exec option" where
  "gate items net urls acts now oldItems =
     (let spinner = Start (SetTotal (int (length oldItems)) (NewSpinner ''Checking sites'' now))
      in case fan_out (length items) (gate_work net urls items) acts spinner of
           None \<Rightarrow> None
         | Some st \<Rightarrow>
             Some (case project oldItems (ch st) [] of
                     Return newItems \<Rightarrow> Return (newItems, spin st)
                   | Panic p \<Rightarrow> Panic p
                   | Blocked \<Rightarrow> Blocked))"

definition GetAvailableSites :: "Net \<Rightarrow> (string \<rightharpoonup> string) \<Rightarrow> action list \<Rightarrow> int \<Rightarrow> 'h list
    \<Rightarrow> ('h list \<times> Spinner) exec option" where
  "GetAvailableSites = gate [''torrenttop'']"

definition GetAvailableSitesEx :: "Net \<Rightarrow> (string \<rightharpoonup> string) \<Rightarrow> action list \<Rightarrow> int \<Rightarrow> 'h list
    \<Rightarrow> ('h list \<times> Spinner) exec option" where
  "GetAvailableSitesEx = gate [''nyaa'', ''sukebe'']"

section \<open>The query dispatcher\<close>

text \<open>
  A source is its method \<^verbatim>\<open>Crawl\<close>: from the keyword to a Go map, or to \<^verbatim>\<open>nil\<close>. A map that
  a source returns is the list of its entries in the order in which the \<^verbatim>\<open>range\<close> of the
  merge visits them; its keys are distinct.
\<close>

type_synonym Scraping = "string \<Rightarrow> (string \<times> string) list option"
type_synonym ScrapingEx = "string \<Rightarrow> (string \<times> string list) list option"

text \<open>\<^verbatim>\<open>strings.Replace(k, " ", "_", -1)\<close>\<close>

definition replace_spaces :: "string \<Rightarrow> string" where
  "replace_spaces k = map (\<lambda>c. if c = CHR '' '' then CHR ''_'' else c) k"

text \<open>
  The lines before the loop: \<^verbatim>\<open>UpdateMessage("Searching")\<close>, \<^verbatim>\<open>SetTotal(len(s))\<close>,
  \<^verbatim>\<open>atomic.StoreInt32(&spinner.done, 0)\<close>.
\<close>

definition collect_begin :: "nat \<Rightarrow> Spinner \<Rightarrow> Spinner" where
  "collect_begin n sp = (SetTotal (int n) (UpdateMessage ''Searching'' sp))\<lparr>done := 0\<rparr>"

text \<open>
  The fan-out of \<^verbatim>\<open>CollectData\<close> and \<^verbatim>\<open>CollectDataEx\<close>, up to \<^verbatim>\<open>close(ch)\<close>: the state when
  \<^verbatim>\<open>wg.Wait()\<close> has returned.
\<close>

definition collect_fanout :: "action list \<Rightarrow> (string \<Rightarrow> 'r option) list \<Rightarrow> string \<Rightarrow> Spinner
    \<Rightarrow> 'r fanout option" where
  "collect_fanout acts s keyword sp =
     fan_out (length s) (\<lambda>i. (s ! i) keyword) acts (collect_begin (length s) sp)"

text \<open>The inner loop of the merge of \<^verbatim>\<open>CollectData\<close>, over one map of the channel.\<close>

fun merge_elem :: "(string \<times> string) list \<Rightarrow> (string \<rightharpoonup> string) \<Rightarrow> (string \<rightharpoonup> string)" where
  "merge_elem [] m = m"
| "merge_elem ((k, v) # kvs) m =
     (let k' = replace_spaces k
      in if v = ''no magnet'' then merge_elem kvs m
         else merge_elem kvs (m(k' \<mapsto> v)))"

fun merge :: "(string \<times> string) list list \<Rightarrow> (string \<rightharpoonup> string) \<Rightarrow> (string \<rightharpoonup> string)" where
  "merge [] m = m"
| "merge (elem # elems) m = merge elems (merge_elem elem m)"

fun merge_elem_ex :: "(string \<times> string list) list \<Rightarrow> (string \<rightharpoonup> string list)
    \<Rightarrow> (string \<rightharpoonup> string list)" where
  "merge_elem_ex [] m = m"
| "merge_elem_ex ((k, v) # kvs) m =
     (let k' = replace_spaces k
      in merge_elem_ex kvs (m(k' \<mapsto> v)))"

fun merge_ex :: "(string \<times> string list) list list \<Rightarrow> (string \<rightharpoonup> string list)
    \<Rightarrow> (string \<rightharpoonup> string list)" where
  "merge_ex [] m = m"
| "merge_ex (elem # elems) m = merge_ex elems (merge_elem_ex elem m)"

definition CollectData :: "action list \<Rightarrow> Scraping list \<Rightarrow> string \<Rightarrow> Spinner
    \<Rightarrow> ((string \<rightharpoonup> string) \<times> Spinner) option" where
  "CollectData acts s keyword sp =
     (case collect_fanout acts s keyword sp of
        None \<Rightarrow> None
      | Some st \<Rightarrow> Some (merge (ch st) Map.empty, spin st))"

definition CollectDataEx :: "action list \<Rightarrow> ScrapingEx list \<Rightarrow> string \<Rightarrow> Spinner
    \<Rightarrow> ((string \<rightharpoonup> string list) \<times> Spinner) option" where
  "CollectDataEx acts s keyword sp =
     (case collect_fanout acts s keyword sp of
        None \<Rightarrow> None
      | Some st \<Rightarrow> Some (merge_ex (ch st) Map.empty, spin st))"

section \<open>The sentinel of the simple tier\<close>

text \<open>
  \<^verbatim>\<open>TorrentTop.GetMagnet\<close>. The page is a parameter: the fetch fails, the parse fails with
  an error text, or the document has, for each element \<^verbatim>\<open>i.fas.fa-magnet\<close>, the \<^verbatim>\<open>href\<close>
  attributes of the anchors under its parent, in document order (\<open>None\<close> for an anchor
  without one).
\<close>

datatype page = FetchFailed | ParseFailed string | Document "string option list list"

text \<open>
  \<^verbatim>\<open>EachWithBreak\<close> over the anchors of one icon: the first \<^verbatim>\<open>href\<close> with the prefix
  \<^verbatim>\<open>magnet:?\<close> is assigned to \<^verbatim>\<open>magnet\<close> and ends the loop.
\<close>

fun first_magnet :: "string option list \<Rightarrow> string \<Rightarrow> string" where
  "first_magnet [] magnet = magnet"
| "first_magnet (None # anchors) magnet = first_magnet anchors magnet"
| "first_magnet (Some href # anchors) magnet =
     (if take 8 href = ''magnet:?'' then href else first_magnet anchors magnet)"

definition GetMagnet :: "page \<Rightarrow> string" where
  "GetMagnet p =
     (case p of
        FetchFailed \<Rightarrow> ''failed to fetch magnet''
      | ParseFailed err \<Rightarrow> ''parse error: '' @ err
      | Document icons \<Rightarrow>
          (let magnet = fold first_magnet icons []
           in if magnet = [] then ''no magnet'' else magnet))"

section \<open>The search command\<close>

text \<open>
  What \<^verbatim>\<open>doSearch\<close> does that can be seen from outside: the text it prints, and its calls
  of the dispatcher and of the table printers with their arguments. The status lines
  that the render goroutine prints in between are left out.
\<close>

datatype event =
    Stdout string
  | Call_CollectData nat string
  | Call_CollectDataEx nat string
  | Call_PrintData "string \<rightharpoonup> string"
  | Call_PrintDataEx "string \<rightharpoonup> string list"

text \<open>
  Everything that \<^verbatim>\<open>doSearch\<close> takes from outside: the network, the global \<^verbatim>\<open>TorrentURL\<close>,
  the executions of the two fan-outs, the clock readings of \<^verbatim>\<open>NewSpinner\<close> and of
  \<^verbatim>\<open>StopWithMessage\<close>, and the three sources. The package \<^verbatim>\<open>jtorrent\<close> of \<^verbatim>\<open>Nyaa\<close> and
  \<^verbatim>\<open>SuKeBe\<close> is not among the sources read here; only their method \<^verbatim>\<open>Crawl\<close> is used.
\<close>

record world =
  w_net :: Net
  w_urls :: "string \<rightharpoonup> string"
  w_gate :: "action list"
  w_collect :: "action list"
  w_now :: int
  w_end :: int
  w_float :: float_fmt
  w_TorrentTop :: Scraping
  w_Nyaa :: ScrapingEx
  w_SuKeBe :: ScrapingEx

text \<open>\<^verbatim>\<open>fmt.Println("[!] No available sites. Use 'angel doctor' to check status.")\<close>\<close>

definition no_sites_line :: string where
  "no_sites_line =
     ''[!] No available sites. Use '' @ [CHR 0x27] @ ''angel doctor'' @ [CHR 0x27]
       @ '' to check status.'' @ [CHR 0x0A]"

text \<open>\<^verbatim>\<open>fmt.Sprintf("Found %d result(s) from %d site(s)", len(data), len(sites))\<close>\<close>

definition found_message :: "nat \<Rightarrow> nat \<Rightarrow> string" where
  "found_message results sites =
     ''Found '' @ fmt_d (int results) @ '' result(s) from '' @ fmt_d (int sites) @ '' site(s)''"

text \<open>
  \<^verbatim>\<open>doSearch\<close>: the events in their order and the error returned (\<open>None\<close> for \<^verbatim>\<open>nil\<close>).
\<close>

definition doSearch :: "world \<Rightarrow> string \<Rightarrow> string \<Rightarrow> (event list \<times> string option) exec option" where
  "doSearch W keyword lang =
     (if keyword = [] then Some (Return ([], Some ''please provide a search keyword''))
      else if lang = ''kr'' then
        (case GetAvailableSites (w_net W) (w_urls W) (w_gate W) (w_now W) [w_TorrentTop W] of
           None \<Rightarrow> None
         | Some Blocked \<Rightarrow> Some Blocked
         | Some (Panic p) \<Rightarrow> Some (Panic p)
         | Some (Return (sites, spinner)) \<Rightarrow>
             if length sites = 0 then
               (case Stop spinner of
                  Return (sp, out) \<Rightarrow> Some (Return ([Stdout out, Stdout no_sites_line], None))
                | Panic p \<Rightarrow> Some (Panic p)
                | Blocked \<Rightarrow> Some Blocked)
             else
               (case CollectData (w_collect W) sites keyword spinner of
                  None \<Rightarrow> None
                | Some (data, spinner') \<Rightarrow>
                    (case StopWithMessage (w_float W)
                            (found_message (card (dom data)) (length sites)) (w_end W) spinner' of
                       Return (sp, out) \<Rightarrow>
                         Some (Return ([Call_CollectData (length sites) keyword, Stdout out,
                                        Call_PrintData data], None))
                     | Panic p \<Rightarrow> Some (Panic p)
                     | Blocked \<Rightarrow> Some Blocked)))
      else
        (case GetAvailableSitesEx (w_net W) (w_urls W) (w_gate W) (w_now W)
                [w_Nyaa W, w_SuKeBe W] of
           None \<Rightarrow> None
         | Some Blocked \<Rightarrow> Some Blocked
         | Some (Panic p) \<Rightarrow> Some (Panic p)
         | Some (Return (sites, spinner)) \<Rightarrow>
             if length sites = 0 then
               (case Stop spinner of
                  Return (sp, out) \<Rightarrow> Some (Return ([Stdout out, Stdout no_sites_line], None))
                | Panic p \<Rightarrow> Some (Panic p)
                | Blocked \<Rightarrow> Some Blocked)
             else
               (case CollectDataEx (w_collect W) sites keyword spinner of
                  None \<Rightarrow> None
                | Some (data, spinner') \<Rightarrow>
                    (case StopWithMessage (w_float W)
                            (found_message (card (dom data)) (length sites)) (w_end W) spinner' of
                       Return (sp, out) \<Rightarrow>
                         Some (Return ([Call_CollectDataEx (length sites) keyword, Stdout out,
                                        Call_PrintDataEx data], None))
                     | Panic p \<Rightarrow> Some (Panic p)
                     | Blocked \<Rightarrow> Some Blocked))))"

section \<open>Notions used in the proofs\<close>

text \<open>A goroutine that has called \<^verbatim>\<open>IncrDone\<close>, and one that has passed its send statement.\<close>

fun counted :: "'r worker \<Rightarrow> bool" where
  "counted (Counted r) = True"
| "counted Exiting = True"
| "counted Gone = True"
| "counted w = False"

fun sent :: "'r worker \<Rightarrow> bool" where
  "sent Exiting = True"
| "sent Gone = True"
| "sent w = False"

text \<open>
  What holds in every state of an execution \<open>acts\<close> that starts with the spinner \<open>sp\<close>:
  the WaitGroup counts the goroutines that have not ended, the completed-count has grown
  by the number of goroutines that have called \<^verbatim>\<open>IncrDone\<close>, the channel holds what the
  goroutines sent, in the order of their sends, and \<^verbatim>\<open>wg.Wait()\<close> has returned only if
  all \<open>n\<close> goroutines have ended.
\<close>

definition fan_inv :: "nat \<Rightarrow> (nat \<Rightarrow> 'r option) \<Rightarrow> Spinner \<Rightarrow> action list \<Rightarrow> 'r fanout \<Rightarrow> bool" where
  "fan_inv n work sp acts st \<longleftrightarrow>
     length (workers st) \<le> n
     \<and> wg st = int (length (filter (\<lambda>w. w \<noteq> Gone) (workers st)))
     \<and> spin st = sp\<lparr>done := done sp + of_nat (length (filter counted (workers st)))\<rparr>
     \<and> ch st = List.map_filter work (send_order acts)
     \<and> distinct (send_order acts)
     \<and> set (send_order acts) = {i. i < length (workers st) \<and> sent (workers st ! i)}
     \<and> (\<forall>i r. i < length (workers st)
            \<and> (workers st ! i = Computed r \<or> workers st ! i = Counted r) \<longrightarrow> r = work i)
     \<and> (waited st \<longrightarrow> length (workers st) = n \<and> (\<forall>w \<in> set (workers st). w = Gone))"

section \<open>Properties of the progress tracker\<close>

subsection \<open>Stopping twice\<close>

lemma close_stop_closed: "close_stop s = Return s1 \<Longrightarrow> stop s1 = Closed"
  by (auto simp: close_stop_def split: chan.splits)

lemma await_stopped_stop: "await_stopped s1 = Return s2 \<Longrightarrow> stop s2 = stop s1"
  by (auto simp: await_stopped_def split: chan.splits if_splits)

lemma Stop_closed: "Stop s = Return (s', out) \<Longrightarrow> stop s' = Closed"
  by (auto simp: Stop_def split: exec.splits dest!: close_stop_closed await_stopped_stop)

lemma StopWithMessage_closed:
  "StopWithMessage F msg now s = Return (s', out) \<Longrightarrow> stop s' = Closed"
  by (auto simp: StopWithMessage_def split: exec.splits
      dest!: close_stop_closed await_stopped_stop)

lemma closed_Stop: "stop s = Closed \<Longrightarrow> Stop s = Panic CloseOfClosedChannel"
  by (simp add: Stop_def close_stop_def)

lemma closed_StopWithMessage:
  "stop s = Closed \<Longrightarrow> StopWithMessage F msg now s = Panic CloseOfClosedChannel"
  by (simp add: StopWithMessage_def close_stop_def)

text \<open>
  C10. \<^verbatim>\<open>Stop\<close> and \<^verbatim>\<open>StopWithMessage\<close> close the same channel \<^verbatim>\<open>stop\<close>: once either of them
  has returned on a spinner, the channel is closed, and any further call of either of
  them on that spinner panics with a close of a closed channel. So at most one stop
  operation can be carried out on a spinner.
\<close>

theorem stop_twice_panics:
  assumes "Stop s = Return (s', out) \<or> StopWithMessage F msg now s = Return (s', out)"
  shows "stop s' = Closed
       \<and> Stop s' = Panic CloseOfClosedChannel
       \<and> StopWithMessage F' msg' now' s' = Panic CloseOfClosedChannel"
  using assms
  by (auto dest: Stop_closed StopWithMessage_closed simp: closed_Stop closed_StopWithMessage)

theorem stop_twice_panics_witness:
  "Stop (Start (NewSpinner ''Checking sites'' 0))
     = Return ((NewSpinner ''Checking sites'' 0)\<lparr>stop := Closed, stopped := Closed\<rparr>, clear_line)
   \<and> Stop ((NewSpinner ''Checking sites'' 0)\<lparr>stop := Closed, stopped := Closed\<rparr>)
       = Panic CloseOfClosedChannel
   \<and> StopWithMessage \<lparr>seconds_1f = \<lambda>d. [], minutes_int = \<lambda>d. 0, seconds_int = \<lambda>d. 0\<rparr>
       ''Found'' 5 ((NewSpinner ''Checking sites'' 0)\<lparr>stop := Closed, stopped := Closed\<rparr>)
       = Panic CloseOfClosedChannel"
proof -
  have h: "Stop (Start (NewSpinner ''Checking sites'' 0))
     = Return ((NewSpinner ''Checking sites'' 0)\<lparr>stop := Closed, stopped := Closed\<rparr>, clear_line)"
    by (simp add: Stop_def close_stop_def await_stopped_def Start_def NewSpinner_def)
  from stop_twice_panics [OF disjI1, OF h, of "\<lparr>seconds_1f = \<lambda>d. [], minutes_int = \<lambda>d. 0, seconds_int = \<lambda>d. 0\<rparr>" "''Found''" 5] h show ?thesis by simp
qed

subsection \<open>The ETA\<close>

lemma sint_scast_duration: "sint (scast (x :: int32) :: duration) = sint x"
  by (simp add: sint_up_scast is_up)

lemma sint_int32_bounds: "- (2 ^ 31) \<le> sint (x :: int32) \<and> sint x < 2 ^ 31"
  using sint_range_size [of x] by (simp add: word_size)

lemma sint_duration_bounds: "- (2 ^ 63) \<le> sint (x :: duration) \<and> sint x < 2 ^ 63"
  using sint_range_size [of x] by (simp add: word_size)

lemma sint_diff_pos:
  fixes t d :: int32
  assumes "0 < sint t" "0 < sint d"
  shows "sint (t - d) = sint t - sint d"
proof -
  have "- (2 ^ 31) \<le> sint t - sint d" "sint t - sint d < 2 ^ 31"
    using assms sint_int32_bounds [of t] sint_int32_bounds [of d] by auto
  then show ?thesis
    by (simp add: sint_word_diff signed_take_bit_int_eq_self)
qed

lemma sint_go_div:
  assumes "0 < sint b"
  shows "sint (go_div a b) = sint a sdiv sint b"
proof -
  have r: "sint a sdiv sint b \<in> {- \<bar>sint a\<bar>..\<bar>sint a\<bar>}"
    by (rule sdiv_int_range)
  have "sint a sdiv sint b < 2 ^ 63"
  proof (cases "0 \<le> sint a")
    case True
    then show ?thesis using r sint_duration_bounds [of a] by auto
  next
    case False
    then have "sint a sdiv sint b \<le> 0" using assms
      by (simp add: signed_divide_int_def sgn_if mult_le_0_iff pos_imp_zdiv_nonneg_iff)
    then show ?thesis by simp
  qed
  moreover have "- (2 ^ 63) \<le> sint a sdiv sint b"
    using r sint_duration_bounds [of a] by auto
  ultimately show ?thesis
    by (simp add: go_div_def sint_sbintrunc' signed_take_bit_int_eq_self)
qed

lemma sint_remaining:
  assumes "0 < sint t" "0 < sint d"
    and "- (2 ^ 63) \<le> (sint elapsed sdiv sint d) * (sint t - sint d)"
    and "(sint elapsed sdiv sint d) * (sint t - sint d) < 2 ^ 63"
  shows "sint (remaining elapsed t d) = (sint elapsed sdiv sint d) * (sint t - sint d)"
proof -
  have d: "sint (go_div elapsed (scast d)) = sint elapsed sdiv sint d"
    using assms(2) by (simp add: sint_go_div sint_scast_duration)
  have t: "sint (scast (t - d) :: duration) = sint t - sint d"
    using assms(1,2) by (simp add: sint_scast_duration sint_diff_pos)
  show ?thesis
    unfolding remaining_def sint_word_mult d t
    using assms(3,4) by (simp add: signed_take_bit_int_eq_self mult.commute)
qed

lemma remaining_example: "remaining (10 * u) 5 1 = 40 * u"
  by (simp add: remaining_def go_div_def)

lemma render_status_eta:
  assumes "0 < sint (total s)" "0 < sint (done s)" "current s < length (frames s)"
  shows "render_status F s now =
           Return (StatusEta (frames s ! current s) (message s) (done s) (total s)
                     (formatDuration F (time_Since now (start s)))
                     (formatDuration F (remaining (time_Since now (start s)) (total s) (done s))))"
  using assms by (simp add: render_status_def Let_def word_sless_alt)

lemma render_status_no_eta:
  assumes "done s = 0" "current s < length (frames s)"
  shows "render_status F s now =
           Return (if 0 < sint (total s)
                   then StatusTotal (frames s ! current s) (message s) (total s)
                          (formatDuration F (time_Since now (start s)))
                   else StatusPlain (frames s ! current s) (message s)
                          (formatDuration F (time_Since now (start s))))"
  using assms by (simp add: render_status_def Let_def word_sless_alt)

text \<open>
  C6. For a spinner whose frame index is in range, \<^verbatim>\<open>render\<close> builds its line as follows.
  With a completed-count of zero the line is one of the two formats without an ETA.
  With \<open>total > 0\<close> and \<open>done > 0\<close> the line has an ETA, which is the formatted value of
  \<^verbatim>\<open>Duration(total-done) * (elapsed / Duration(done))\<close>; read as integers this is
  \<open>(elapsed / done) * (total - done)\<close> with Go's truncating division, as long as the
  product fits into an \<^verbatim>\<open>int64\<close>. With total 5, done 1 and 10 units elapsed the ETA is
  40 units, for every unit.
\<close>

theorem render_eta:
  assumes "current s < length (frames s)"
  shows "(done s = 0 \<longrightarrow>
            (\<exists>l. render_status F s now = Return l \<and> \<not> is_StatusEta l
                 \<and> render F s now = Return (status_text l)))
       \<and> (0 < sint (total s) \<and> 0 < sint (done s) \<longrightarrow>
            (\<exists>l. render_status F s now = Return l \<and> is_StatusEta l
                 \<and> render F s now = Return (status_text l)
                 \<and> st_eta l = formatDuration F
                               (remaining (time_Since now (start s)) (total s) (done s)))
            \<and> (- (2 ^ 63) \<le> (sint (time_Since now (start s)) sdiv sint (done s))
                              * (sint (total s) - sint (done s))
               \<and> (sint (time_Since now (start s)) sdiv sint (done s))
                   * (sint (total s) - sint (done s)) < 2 ^ 63
               \<longrightarrow> sint (remaining (time_Since now (start s)) (total s) (done s))
                     = (sint (time_Since now (start s)) sdiv sint (done s))
                       * (sint (total s) - sint (done s))))
       \<and> remaining (10 * u) 5 1 = 40 * u"
proof (intro conjI impI)
  assume "done s = 0"
  then show "\<exists>l. render_status F s now = Return l \<and> \<not> is_StatusEta l
                 \<and> render F s now = Return (status_text l)"
    using assms by (simp add: render_def render_status_no_eta)
next
  assume "0 < sint (total s) \<and> 0 < sint (done s)"
  then show "\<exists>l. render_status F s now = Return l \<and> is_StatusEta l
                 \<and> render F s now = Return (status_text l)
                 \<and> st_eta l = formatDuration F
                               (remaining (time_Since now (start s)) (total s) (done s))"
    using assms by (simp add: render_def render_status_eta)
next
  assume "0 < sint (total s) \<and> 0 < sint (done s)"
    and "- (2 ^ 63) \<le> (sint (time_Since now (start s)) sdiv sint (done s))
                              * (sint (total s) - sint (done s))
               \<and> (sint (time_Since now (start s)) sdiv sint (done s))
                   * (sint (total s) - sint (done s)) < 2 ^ 63"
  then show "sint (remaining (time_Since now (start s)) (total s) (done s))
                     = (sint (time_Since now (start s)) sdiv sint (done s))
                       * (sint (total s) - sint (done s))"
    by (simp add: sint_remaining)
next
  show "remaining (10 * u) 5 1 = 40 * u" by (rule remaining_example)
qed

text \<open>
  The example of the claim, with the millisecond as the unit: total 5, done 1, 10 ms
  elapsed. The line shows \<open>10ms\<close> elapsed and an ETA of \<open>40ms\<close>.
\<close>

theorem render_eta_witness:
  "current (IncrDone (SetTotal 5 (NewSpinner ''Searching'' 0)))
     < length (frames (IncrDone (SetTotal 5 (NewSpinner ''Searching'' 0))))
   \<and> (\<exists>l. render_status 
        \<lparr>seconds_1f = \<lambda>d. [], minutes_int = \<lambda>d. 0, seconds_int = \<lambda>d. 0\<rparr>
        (IncrDone (SetTotal 5 (NewSpinner ''Searching'' 0))) 10000000 = Return l
          \<and> is_StatusEta l \<and> st_eta l = ''40ms'')
   \<and> (\<exists>l. render_status 
        \<lparr>seconds_1f = \<lambda>d. [], minutes_int = \<lambda>d. 0, seconds_int = \<lambda>d. 0\<rparr>
        (SetTotal 5 (NewSpinner ''Searching'' 0)) 10000000 = Return l
          \<and> \<not> is_StatusEta l)"
proof -
  let ?F = "\<lparr>seconds_1f = \<lambda>d. [], minutes_int = \<lambda>d. 0, seconds_int = \<lambda>d. 0\<rparr>"
  let ?s = "IncrDone (SetTotal 5 (NewSpinner ''Searching'' 0))"
  let ?z = "SetTotal 5 (NewSpinner ''Searching'' 0)"
  have c: "current ?s < length (frames ?s)" "current ?z < length (frames ?z)"
    by (simp_all add: IncrDone_def SetTotal_def NewSpinner_def spinner_frames_def)
  have p: "0 < sint (total ?s) \<and> 0 < sint (done ?s)" "done ?z = 0"
    by (simp_all add: IncrDone_def SetTotal_def NewSpinner_def)
  have v: "formatDuration ?F (remaining (time_Since 10000000 (start ?s)) (total ?s) (done ?s))
             = ''40ms''"
    by (simp add: IncrDone_def SetTotal_def NewSpinner_def time_Since_def remaining_def
        go_div_def formatDuration_def Second_def fmt_d_def word_sless_alt
        digits.simps [of 40] digits.simps [of 4] digit_char_def)
  from render_eta [OF c(1), of ?F 10000000 1] p(1)
  obtain l where l: "render_status ?F ?s 10000000 = Return l" "is_StatusEta l"
      "st_eta l = formatDuration ?F
                    (remaining (time_Since 10000000 (start ?s)) (total ?s) (done ?s))"
    by blast
  from l(3) have e: "st_eta l = ''40ms''" by (simp only: v)
  from render_eta [OF c(2), of ?F 10000000 1] p(2)
  obtain l' where l': "render_status ?F ?z 10000000 = Return l'" "\<not> is_StatusEta l'"
    by blast
  from c(1) l(1,2) e l' show ?thesis by blast
qed


end
